theory Spec2Isabelle
  imports Main "HOL-Library.Word"
begin

section \<open>Expressions, locators and solver records\<close>

text \<open>
  The header \<^verbatim>\<open>lib/Sema/CSDiagnostics.h\<close> works on pointers into the AST and into the
  constraint system.  A pointer that may be null is an \<open>option\<close>; an object carries
  the address it lives at, so that equality of two values is equality of pointers.

  The expression classes are declared in \<^verbatim>\<open>swift/AST/Expr.h\<close>, which the header only
  includes.  \<open>ExprKind\<close> lists the classes the header names; \<open>ApplyExpr\<close> is the
  abstract base class of the call forms.
\<close>

datatype ExprKind =
    CallExpr | PrefixUnaryExpr | PostfixUnaryExpr | BinaryExpr
  | DotSyntaxCallExpr | ConstructorRefCallExpr
  | UnresolvedMemberExpr | UnresolvedDotExpr | TypeExpr | DeclRefExpr
  | SubscriptExpr | LoadExpr | IfExpr | ClosureExpr | KeyPathExpr
  | TupleExpr | ParenExpr

datatype Expr = Expr (Expr_getKind: ExprKind) (Expr_addr: nat)

definition isa_ApplyExpr :: "Expr \<Rightarrow> bool" where
  "isa_ApplyExpr e =
     (case Expr_getKind e of
        CallExpr \<Rightarrow> True | PrefixUnaryExpr \<Rightarrow> True | PostfixUnaryExpr \<Rightarrow> True
      | BinaryExpr \<Rightarrow> True | DotSyntaxCallExpr \<Rightarrow> True | ConstructorRefCallExpr \<Rightarrow> True
      | _ \<Rightarrow> False)"

definition dyn_cast_ApplyExpr :: "Expr \<Rightarrow> Expr option" where
  "dyn_cast_ApplyExpr e = (if isa_ApplyExpr e then Some e else None)"

definition isa_UnresolvedMemberExpr :: "Expr \<Rightarrow> bool" where
  "isa_UnresolvedMemberExpr e = (Expr_getKind e = UnresolvedMemberExpr)"

definition isa_TypeExpr :: "Expr \<Rightarrow> bool" where
  "isa_TypeExpr e = (Expr_getKind e = TypeExpr)"

text \<open>
  \<^verbatim>\<open>RequirementKind\<close> and the path elements of a locator come from headers that are
  not at hand either.  The header uses three requirement kinds, the two requirement
  path elements with their two payload values (\<^verbatim>\<open>getValue()\<close>, the index, and
  \<^verbatim>\<open>getValue2()\<close>, the encoded requirement kind, both \<^verbatim>\<open>unsigned\<close>) and the kinds
  \<^verbatim>\<open>Member\<close> and \<^verbatim>\<open>UnresolvedMember\<close>.
\<close>

datatype RequirementKind = RK_Conformance | RK_Superclass | RK_SameType

text \<open>The value of a requirement kind as \<^verbatim>\<open>unsigned\<close>, in the order of declaration.\<close>

fun RequirementKind_value :: "RequirementKind \<Rightarrow> 32 word" where
  "RequirementKind_value RK_Conformance = 0"
| "RequirementKind_value RK_Superclass = 1"
| "RequirementKind_value RK_SameType = 2"

datatype PathElementKind =
    ApplyArgument | ApplyFunction | Member | UnresolvedMember | OpenedGeneric
  | TupleElement | OptionalPayload | KeyPathComponent
  | TypeParameterRequirement | ConditionalRequirement

datatype PathElement =
  PathElement (getKind: PathElementKind) (getValue: "32 word") (getValue2: "32 word")

definition isTypeParameterRequirement :: "PathElement \<Rightarrow> bool" where
  "isTypeParameterRequirement elt = (getKind elt = TypeParameterRequirement)"

definition isConditionalRequirement :: "PathElement \<Rightarrow> bool" where
  "isConditionalRequirement elt = (getKind elt = ConditionalRequirement)"

datatype ConstraintLocator =
  ConstraintLocator (Locator_addr: nat) (getAnchor: "Expr option") (getPath: "PathElement list")

text \<open>Declarations, signatures and conformances are only passed around: an address each.\<close>

type_synonym ValueDecl = nat
type_synonym GenericSignature = nat
type_synonym ProtocolConformance = nat
type_synonym OverloadChoice = nat

text \<open>
  The solver's resolved overloads: a singly linked list, each record pointing to the one
  resolved before it (\<^verbatim>\<open>Previous\<close>, null at the oldest).  A record is created in
  front of the chain as it is, so that the chain is finite and has no cycle.
\<close>

datatype ResolvedOverloadSetListItem =
  ResolvedOverloadSetListItem
    (Previous: "ResolvedOverloadSetListItem option")
    (Locator: "ConstraintLocator option")
    (Choice: OverloadChoice)

record ConstraintSystem =
  getResolvedOverloadSets :: "ResolvedOverloadSetListItem option"

text \<open>
  Member functions that the header declares and whose bodies are in the implementation
  file are parameters of the model: \<^verbatim>\<open>computeAnchor\<close>, \<^verbatim>\<open>findParentExpr\<close>,
  \<^verbatim>\<open>getSignature\<close> and \<^verbatim>\<open>getDeclRef\<close>, each as a function of what the member function
  reads (the root expression and the locator), and the conformance the solver recorded
  for a locator.  The resolved anchor is never null (design, section 4.1), hence an
  \<open>Expr\<close>.
\<close>

record External =
  computeAnchor :: "Expr option \<Rightarrow> ConstraintLocator \<Rightarrow> Expr \<times> bool"
  findParentExpr :: "Expr option \<Rightarrow> Expr option \<Rightarrow> Expr option"
  getSignature :: "ConstraintLocator \<Rightarrow> GenericSignature option"
  getDeclRef :: "Expr option \<Rightarrow> ConstraintLocator \<Rightarrow> ValueDecl option"
  checkedConformance :: "ConstraintLocator \<Rightarrow> ProtocolConformance"

section \<open>Errors\<close>

text \<open>
  A failed \<^verbatim>\<open>assert\<close> and a dereferenced null pointer end the program; they are the
  \<open>Inl\<close> results of the model.  Assertions are modelled as compiled in.
\<close>

datatype error = NullDereference | AssertionFailure string

definition assert :: "bool \<Rightarrow> string \<Rightarrow> error + 'a \<Rightarrow> error + 'a" where
  "assert c msg k = (if c then k else Inl (AssertionFailure msg))"

section \<open>FailureDiagnostic\<close>

record FailureDiagnostic =
  E :: "Expr option"
  Locator_of :: ConstraintLocator
  RawAnchor :: "Expr option"
  Anchor :: Expr
  HasComplexLocator :: bool

text \<open>
  The constructor reads \<^verbatim>\<open>locator->getAnchor()\<close> in its initialiser list: a null locator
  is dereferenced there.  Afterwards the stored locator is not null.  The field
  \<^verbatim>\<open>Locator\<close> of the diagnostic is \<open>Locator_of\<close> here, \<open>Locator\<close> being the field of
  the overload record.
\<close>

definition FailureDiagnostic_ctor ::
  "External \<Rightarrow> Expr option \<Rightarrow> ConstraintLocator option \<Rightarrow> error + FailureDiagnostic" where
  "FailureDiagnostic_ctor ext expr locator =
     (case locator of
        None \<Rightarrow> Inl NullDereference
      | Some l \<Rightarrow>
          Inr \<lparr> E = expr, Locator_of = l, RawAnchor = getAnchor l,
                Anchor = fst (computeAnchor ext expr l),
                HasComplexLocator = snd (computeAnchor ext expr l) \<rparr>)"

text \<open>\<^verbatim>\<open>getResolvedOverload\<close>: the \<^verbatim>\<open>while\<close> loop over the chain, then the member function.\<close>

fun getResolvedOverload_loop ::
  "ResolvedOverloadSetListItem option \<Rightarrow> ConstraintLocator option
     \<Rightarrow> ResolvedOverloadSetListItem option" where
  "getResolvedOverload_loop None locator = None"
| "getResolvedOverload_loop (Some (ResolvedOverloadSetListItem previous l c)) locator =
     (if l = locator then Some (ResolvedOverloadSetListItem previous l c)
      else getResolvedOverload_loop previous locator)"

definition getResolvedOverload ::
  "ConstraintSystem \<Rightarrow> ConstraintLocator option \<Rightarrow> ResolvedOverloadSetListItem option" where
  "getResolvedOverload cs locator =
     getResolvedOverload_loop (getResolvedOverloadSets cs) locator"

text \<open>The chain as a list, most recently resolved record first.\<close>

fun chain :: "ResolvedOverloadSetListItem option \<Rightarrow> ResolvedOverloadSetListItem list" where
  "chain None = []"
| "chain (Some (ResolvedOverloadSetListItem previous l c)) =
     ResolvedOverloadSetListItem previous l c # chain previous"

section \<open>RequirementFailure\<close>

record RequirementFailure = FailureDiagnostic +
  Conformance :: "ProtocolConformance option"
  Signature :: "GenericSignature option"
  AffectedDecl :: "ValueDecl option"
  Apply :: "Expr option"

definition isConditional :: "RequirementFailure \<Rightarrow> bool" where
  "isConditional rf = (Conformance rf \<noteq> None)"

text \<open>
  Modelled from the spec: \<^verbatim>\<open>getConformanceForConditionalReq\<close>, declared in the header,
  body in the implementation file.  The design (section 3) has the conformance record
  present only if the requirement is conditional, and (section 8) \<^verbatim>\<open>isConditional()\<close>
  true for a locator whose last path element is a conditional requirement: the
  conformance the solver recorded in that case, null otherwise.
\<close>

definition getConformanceForConditionalReq ::
  "External \<Rightarrow> ConstraintLocator \<Rightarrow> ProtocolConformance option" where
  "getConformanceForConditionalReq ext locator =
     (if getPath locator \<noteq> [] \<and> isConditionalRequirement (last (getPath locator))
      then Some (checkedConformance ext locator)
      else None)"

text \<open>
  The constructor: the base class, the three fields of the initialiser list, the
  assertions in their order, then the enclosing apply expression, which is looked up
  only when the base expression is not null.
\<close>

definition RequirementFailure_ctor ::
  "External \<Rightarrow> Expr option \<Rightarrow> RequirementKind \<Rightarrow> ConstraintLocator option
     \<Rightarrow> error + RequirementFailure" where
  "RequirementFailure_ctor ext expr kind locator =
     (case FailureDiagnostic_ctor ext expr locator of
        Inl e \<Rightarrow> Inl e
      | Inr base \<Rightarrow>
          let l = Locator_of base;
              conformance = getConformanceForConditionalReq ext l;
              signature = getSignature ext l;
              affectedDecl = getDeclRef ext expr l;
              path = getPath l
          in
          assert (locator \<noteq> None) ''locator''
          (assert (conformance \<noteq> None \<or> signature \<noteq> None) ''isConditional() || Signature''
          (assert (affectedDecl \<noteq> None) ''AffectedDecl''
          (assert (path \<noteq> []) ''!path.empty()''
          (assert (isTypeParameterRequirement (last path) \<or> isConditionalRequirement (last path))
             ''last.isTypeParameterRequirement() || last.isConditionalRequirement()''
          (assert (getValue2 (last path) = RequirementKind_value kind)
             ''static_cast<RequirementKind>(last.getValue2()) == kind''
          (Inr \<lparr> E = E base, Locator_of = l, RawAnchor = RawAnchor base,
                 Anchor = Anchor base, HasComplexLocator = HasComplexLocator base,
                 Conformance = conformance, Signature = signature,
                 AffectedDecl = affectedDecl,
                 Apply =
                   (case expr of
                      None \<Rightarrow> None
                    | Some _ \<Rightarrow>
                        (case findParentExpr ext expr (RawAnchor base) of
                           None \<Rightarrow> None
                         | Some parentExpr \<Rightarrow> dyn_cast_ApplyExpr parentExpr)) \<rparr>)))))))"

definition getRequirementIndex :: "RequirementFailure \<Rightarrow> error + 32 word" where
  "getRequirementIndex rf =
     (let path = getPath (Locator_of rf) in
      assert (path \<noteq> []) ''!path.empty()''
      (assert (isTypeParameterRequirement (last path) \<or> isConditionalRequirement (last path))
         ''requirementLoc.isTypeParameterRequirement() || requirementLoc.isConditionalRequirement()''
      (Inr (getValue (last path)))))"

definition isOperator :: "Expr \<Rightarrow> bool" where
  "isOperator apply =
     (Expr_getKind apply = PrefixUnaryExpr \<or> Expr_getKind apply = PostfixUnaryExpr \<or>
      Expr_getKind apply = BinaryExpr)"

text \<open>
  \<^verbatim>\<open>canDiagnoseFailure\<close>.  \<^verbatim>\<open>path.front()\<close> asserts that the path is not empty.  The
  last line of the source is \<open>operatorOrTypeCheck\<close>.
\<close>

definition operatorOrTypeCheck :: "RequirementFailure \<Rightarrow> bool" where
  "operatorOrTypeCheck rf =
     (\<not> (case Apply rf of
            None \<Rightarrow> False
          | Some apply \<Rightarrow> isOperator apply \<or> isa_TypeExpr (Anchor rf)))"

definition canDiagnoseFailure :: "RequirementFailure \<Rightarrow> error + bool" where
  "canDiagnoseFailure rf =
     (if isConditional rf then Inr True
      else if isa_UnresolvedMemberExpr (Anchor rf) then
        (case getPath (Locator_of rf) of
           [] \<Rightarrow> Inl (AssertionFailure ''!empty()'')
         | front # _ \<Rightarrow>
             if getKind front \<noteq> UnresolvedMember then Inr False
             else Inr (operatorOrTypeCheck rf))
      else Inr (operatorOrTypeCheck rf))"


text \<open>The three concrete requirement failures: each fixes the kind and adds its two types.\<close>

type_synonym Type = nat

record MissingConformanceFailure = RequirementFailure +
  NonConformingType :: Type
  ProtocolType :: Type

record SameTypeRequirementFailure = RequirementFailure +
  SameType_LHS :: Type
  SameType_RHS :: Type

record SuperclassRequirementFailure = RequirementFailure +
  Superclass_LHS :: Type
  Superclass_RHS :: Type

definition MissingConformanceFailure_ctor ::
  "Expr option \<Rightarrow> External \<Rightarrow> ConstraintLocator option \<Rightarrow> Type \<times> Type
     \<Rightarrow> error + MissingConformanceFailure" where
  "MissingConformanceFailure_ctor expr ext locator conformance =
     (case RequirementFailure_ctor ext expr RK_Conformance locator of
        Inl e \<Rightarrow> Inl e
      | Inr rf \<Rightarrow>
          Inr (RequirementFailure.extend rf
                 (MissingConformanceFailure.fields (fst conformance) (snd conformance))))"

definition SameTypeRequirementFailure_ctor ::
  "Expr option \<Rightarrow> External \<Rightarrow> Type \<Rightarrow> Type \<Rightarrow> ConstraintLocator option
     \<Rightarrow> error + SameTypeRequirementFailure" where
  "SameTypeRequirementFailure_ctor expr ext lhs rhs locator =
     (case RequirementFailure_ctor ext expr RK_SameType locator of
        Inl e \<Rightarrow> Inl e
      | Inr rf \<Rightarrow> Inr (RequirementFailure.extend rf (SameTypeRequirementFailure.fields lhs rhs)))"

definition SuperclassRequirementFailure_ctor ::
  "Expr option \<Rightarrow> External \<Rightarrow> Type \<Rightarrow> Type \<Rightarrow> ConstraintLocator option
     \<Rightarrow> error + SuperclassRequirementFailure" where
  "SuperclassRequirementFailure_ctor expr ext lhs rhs locator =
     (case RequirementFailure_ctor ext expr RK_Superclass locator of
        Inl e \<Rightarrow> Inl e
      | Inr rf \<Rightarrow> Inr (RequirementFailure.extend rf (SuperclassRequirementFailure.fields lhs rhs)))"

section \<open>The diagnostic sink\<close>

text \<open>
  What reaches the sink: a diagnostic identifier with its severity, in the order of
  emission.  A member function that may emit takes the sink and returns it with what it
  appended.
\<close>

datatype Severity = Error | Note

datatype Diagnostic = Diagnostic (severity: Severity) (diagID: nat)

type_synonym DiagnosticSink = "Diagnostic list"

type_synonym Emitter = "DiagnosticSink \<Rightarrow> bool \<times> DiagnosticSink"

text \<open>
  Modelled from the spec: \<^verbatim>\<open>RequirementFailure::diagnoseAsError\<close>, declared in the
  header, body in the implementation file.  Design, section 4.3: the suppression policy
  \<^verbatim>\<open>canDiagnoseFailure()\<close> is evaluated before rendering; a suppressed failure returns
  false and emits nothing.  The rendering (choice of the message) is the parameter
  \<open>render\<close>.
\<close>

definition RequirementFailure_diagnoseAsError ::
  "(RequirementFailure \<Rightarrow> Emitter) \<Rightarrow> RequirementFailure \<Rightarrow> DiagnosticSink
     \<Rightarrow> error + bool \<times> DiagnosticSink" where
  "RequirementFailure_diagnoseAsError render rf sink =
     (case canDiagnoseFailure rf of
        Inl e \<Rightarrow> Inl e
      | Inr can \<Rightarrow> if \<not> can then Inr (False, sink) else Inr (render rf sink))"

section \<open>GenericArgumentsMismatchFailure\<close>

text \<open>
  \<^verbatim>\<open>addNotesForMismatches\<close>: the loop over the stored positions with its accumulator
  \<^verbatim>\<open>result\<close>.  \<^verbatim>\<open>result || addNoteForMismatch(p)\<close> evaluates the call only when \<^verbatim>\<open>result\<close>
  is false.  \<^verbatim>\<open>addNoteForMismatch\<close> has its body in the implementation file and is the
  parameter of the loop.
\<close>

fun addNotesForMismatches_loop ::
  "(int \<Rightarrow> Emitter) \<Rightarrow> int list \<Rightarrow> bool \<Rightarrow> Emitter" where
  "addNotesForMismatches_loop addNoteForMismatch [] result sink = (result, sink)"
| "addNotesForMismatches_loop addNoteForMismatch (mismatchPosition # rest) result sink =
     (if result then addNotesForMismatches_loop addNoteForMismatch rest True sink
      else
        (case addNoteForMismatch mismatchPosition sink of
           (r, sink') \<Rightarrow> addNotesForMismatches_loop addNoteForMismatch rest r sink'))"

record GenericArgumentsMismatchFailure = FailureDiagnostic +
  Actual :: Type
  Required :: Type
  Mismatches :: "int list"

definition GenericArgumentsMismatchFailure_ctor ::
  "Expr option \<Rightarrow> External \<Rightarrow> Type \<Rightarrow> Type \<Rightarrow> int list \<Rightarrow> ConstraintLocator option
     \<Rightarrow> error + GenericArgumentsMismatchFailure" where
  "GenericArgumentsMismatchFailure_ctor expr ext actual required mismatches locator =
     (case FailureDiagnostic_ctor ext expr locator of
        Inl e \<Rightarrow> Inl e
      | Inr base \<Rightarrow>
          Inr (FailureDiagnostic.extend base
                 (GenericArgumentsMismatchFailure.fields actual required mismatches)))"

definition addNotesForMismatches ::
  "(int \<Rightarrow> Emitter) \<Rightarrow> GenericArgumentsMismatchFailure \<Rightarrow> Emitter" where
  "addNotesForMismatches addNoteForMismatch self sink =
     addNotesForMismatches_loop addNoteForMismatch (Mismatches self) False sink"

section \<open>The construction precondition in the words of the design\<close>

text \<open>
  Design, section 4.3: the locator's path is not empty and its last element is a
  type-parameter requirement or a conditional requirement whose encoded kind equals the
  constructed kind.
\<close>

definition spec_construction_precondition :: "RequirementKind \<Rightarrow> ConstraintLocator \<Rightarrow> bool" where
  "spec_construction_precondition kind l =
     (getPath l \<noteq> [] \<and>
      (getKind (last (getPath l)) = TypeParameterRequirement \<or>
       getKind (last (getPath l)) = ConditionalRequirement) \<and>
      getValue2 (last (getPath l)) = RequirementKind_value kind)"

section \<open>Worked instances\<close>

text \<open>
  An environment in which the resolved anchor is the locator's anchor, the parent of the
  anchor is the root expression, and every locator has a declaration, a generic
  signature and, if conditional, a conformance.
\<close>

definition example_External :: External where
  "example_External =
     \<lparr> computeAnchor =
         (\<lambda>expr l. case getAnchor l of
                      Some a \<Rightarrow> (a, False)
                    | None \<Rightarrow> (Expr ParenExpr 0, True)),
       findParentExpr = (\<lambda>root subExpr. root),
       getSignature = (\<lambda>l. Some 40),
       getDeclRef = (\<lambda>expr l. Some 7),
       checkedConformance = (\<lambda>l. 99) \<rparr>"

text \<open>A same-type requirement of an operator, failing inside the binary call \<open>a + b\<close>.\<close>

definition example_operator_locator :: ConstraintLocator where
  "example_operator_locator =
     ConstraintLocator 200 (Some (Expr DeclRefExpr 11))
       [PathElement OpenedGeneric 0 0, PathElement TypeParameterRequirement 0 2]"

definition example_operator_failure :: RequirementFailure where
  "example_operator_failure =
     \<lparr> E = Some (Expr BinaryExpr 10), Locator_of = example_operator_locator,
       RawAnchor = Some (Expr DeclRefExpr 11), Anchor = Expr DeclRefExpr 11,
       HasComplexLocator = False, Conformance = None, Signature = Some 40,
       AffectedDecl = Some 7, Apply = Some (Expr BinaryExpr 10) \<rparr>"

text \<open>The same failure constructed without a base expression.\<close>

definition example_detached_failure :: RequirementFailure where
  "example_detached_failure = example_operator_failure \<lparr> E := None, Apply := None \<rparr>"

text \<open>A conditional conformance requirement, with index 3, of an argument of a call.\<close>

definition example_conditional_locator :: ConstraintLocator where
  "example_conditional_locator =
     ConstraintLocator 201 (Some (Expr CallExpr 12))
       [PathElement ApplyArgument 0 0, PathElement ConditionalRequirement 3 0]"

definition example_conditional_failure :: RequirementFailure where
  "example_conditional_failure =
     \<lparr> E = None, Locator_of = example_conditional_locator,
       RawAnchor = Some (Expr CallExpr 12), Anchor = Expr CallExpr 12,
       HasComplexLocator = False, Conformance = Some 99, Signature = Some 40,
       AffectedDecl = Some 7, Apply = None \<rparr>"

text \<open>
  \<open>.foo(x)\<close> with a contextual type: the requirement reached through the member lookup,
  and the same requirement reached through the contextual type.
\<close>

definition example_member_locator :: ConstraintLocator where
  "example_member_locator =
     ConstraintLocator 202 (Some (Expr UnresolvedMemberExpr 13))
       [PathElement UnresolvedMember 0 0, PathElement OpenedGeneric 0 0,
        PathElement TypeParameterRequirement 1 0]"

definition example_member_failure :: RequirementFailure where
  "example_member_failure =
     \<lparr> E = None, Locator_of = example_member_locator,
       RawAnchor = Some (Expr UnresolvedMemberExpr 13), Anchor = Expr UnresolvedMemberExpr 13,
       HasComplexLocator = False, Conformance = None, Signature = Some 40,
       AffectedDecl = Some 7, Apply = None \<rparr>"

definition example_contextual_locator :: ConstraintLocator where
  "example_contextual_locator =
     ConstraintLocator 203 (Some (Expr UnresolvedMemberExpr 13))
       [PathElement OpenedGeneric 0 0, PathElement TypeParameterRequirement 1 0]"

definition example_contextual_failure :: RequirementFailure where
  "example_contextual_failure =
     example_member_failure \<lparr> Locator_of := example_contextual_locator \<rparr>"

text \<open>A locator with an empty path.\<close>

definition example_empty_locator :: ConstraintLocator where
  "example_empty_locator = ConstraintLocator 204 (Some (Expr CallExpr 12)) []"

text \<open>A rendering that emits one error and one note.\<close>

definition example_render :: "RequirementFailure \<Rightarrow> Emitter" where
  "example_render rf sink = (True, sink @ [Diagnostic Error 1, Diagnostic Note 2])"

text \<open>Three resolved overloads; the two older ones are for the same locator.\<close>

definition example_oldest :: ResolvedOverloadSetListItem where
  "example_oldest = ResolvedOverloadSetListItem None (Some example_operator_locator) 1"

definition example_middle :: ResolvedOverloadSetListItem where
  "example_middle =
     ResolvedOverloadSetListItem (Some example_oldest) (Some example_operator_locator) 2"

definition example_newest :: ResolvedOverloadSetListItem where
  "example_newest =
     ResolvedOverloadSetListItem (Some example_middle) (Some example_conditional_locator) 3"

definition example_ConstraintSystem :: ConstraintSystem where
  "example_ConstraintSystem = \<lparr> getResolvedOverloadSets = Some example_newest \<rparr>"

text \<open>
  A note can be attached at the positions that are not negative; three mismatches, the
  first of which has no note.
\<close>

definition example_addNoteForMismatch :: "int \<Rightarrow> Emitter" where
  "example_addNoteForMismatch mismatchPosition sink =
     (if 0 \<le> mismatchPosition
      then (True, sink @ [Diagnostic Note (nat mismatchPosition)])
      else (False, sink))"

definition example_mismatch_failure :: GenericArgumentsMismatchFailure where
  "example_mismatch_failure =
     \<lparr> E = None, Locator_of = example_empty_locator, RawAnchor = Some (Expr CallExpr 12),
       Anchor = Expr CallExpr 12, HasComplexLocator = False,
       Actual = 50, Required = 51, Mismatches = [- 1, 2, 5] \<rparr>"

section \<open>Auxiliary facts\<close>

lemma assert_Inr: "(assert c msg k = Inr v) = (c \<and> k = Inr v)"
  by (simp add: assert_def)

text \<open>What a successful construction establishes.\<close>

lemma RequirementFailure_ctor_Inr:
  "RequirementFailure_ctor ext expr kind locator = Inr rf \<Longrightarrow>
     \<exists>l. locator = Some l \<and> Locator_of rf = l \<and>
       Conformance rf = getConformanceForConditionalReq ext l \<and>
       Signature rf = getSignature ext l \<and>
       (Conformance rf \<noteq> None \<or> Signature rf \<noteq> None) \<and>
       AffectedDecl rf \<noteq> None \<and>
       getPath l \<noteq> [] \<and>
       (isTypeParameterRequirement (last (getPath l)) \<or>
        isConditionalRequirement (last (getPath l))) \<and>
       getValue2 (last (getPath l)) = RequirementKind_value kind \<and>
       Anchor rf = fst (computeAnchor ext expr l) \<and>
       Apply rf =
         (case expr of
            None \<Rightarrow> None
          | Some _ \<Rightarrow>
              (case findParentExpr ext expr (getAnchor l) of
                 None \<Rightarrow> None
               | Some parentExpr \<Rightarrow> dyn_cast_ApplyExpr parentExpr))"
  by (cases locator)
     (auto simp: RequirementFailure_ctor_def FailureDiagnostic_ctor_def Let_def assert_Inr
       split: option.splits)

lemma RequirementFailure_ctor_Inl:
  "\<not> spec_construction_precondition kind l \<Longrightarrow>
     \<exists>msg. RequirementFailure_ctor ext expr kind (Some l) = Inl (AssertionFailure msg)"
  unfolding RequirementFailure_ctor_def FailureDiagnostic_ctor_def Let_def
    spec_construction_precondition_def isTypeParameterRequirement_def
    isConditionalRequirement_def assert_def
  by auto

lemma MissingConformanceFailure_ctor_Inr:
  "MissingConformanceFailure_ctor expr ext locator c = Inr mc \<Longrightarrow>
     \<exists>rf. RequirementFailure_ctor ext expr RK_Conformance locator = Inr rf"
  by (auto simp: MissingConformanceFailure_ctor_def split: sum.splits)

lemma SameTypeRequirementFailure_ctor_Inr:
  "SameTypeRequirementFailure_ctor expr ext lhs rhs locator = Inr st \<Longrightarrow>
     \<exists>rf. RequirementFailure_ctor ext expr RK_SameType locator = Inr rf"
  by (auto simp: SameTypeRequirementFailure_ctor_def split: sum.splits)

lemma SuperclassRequirementFailure_ctor_Inr:
  "SuperclassRequirementFailure_ctor expr ext lhs rhs locator = Inr sc \<Longrightarrow>
     \<exists>rf. RequirementFailure_ctor ext expr RK_Superclass locator = Inr rf"
  by (auto simp: SuperclassRequirementFailure_ctor_def split: sum.splits)

text \<open>The worked instances are what the constructor builds.\<close>

lemmas example_ctor_simps =
  RequirementFailure_ctor_def FailureDiagnostic_ctor_def example_External_def assert_def
  getConformanceForConditionalReq_def isConditionalRequirement_def
  isTypeParameterRequirement_def dyn_cast_ApplyExpr_def isa_ApplyExpr_def

lemma example_operator_failure_ctor:
  "RequirementFailure_ctor example_External (Some (Expr BinaryExpr 10)) RK_SameType
     (Some example_operator_locator) = Inr example_operator_failure"
  by (simp add: example_ctor_simps example_operator_locator_def example_operator_failure_def)

lemma example_detached_failure_ctor:
  "RequirementFailure_ctor example_External None RK_SameType
     (Some example_operator_locator) = Inr example_detached_failure"
  by (simp add: example_ctor_simps example_operator_locator_def example_operator_failure_def
      example_detached_failure_def)

lemma example_conditional_failure_ctor:
  "RequirementFailure_ctor example_External None RK_Conformance
     (Some example_conditional_locator) = Inr example_conditional_failure"
  by (simp add: example_ctor_simps example_conditional_locator_def
      example_conditional_failure_def)

lemma example_member_failure_ctor:
  "RequirementFailure_ctor example_External None RK_Conformance
     (Some example_member_locator) = Inr example_member_failure"
  by (simp add: example_ctor_simps example_member_locator_def example_member_failure_def)

lemma example_contextual_failure_ctor:
  "RequirementFailure_ctor example_External None RK_Conformance
     (Some example_contextual_locator) = Inr example_contextual_failure"
  by (simp add: example_ctor_simps example_contextual_locator_def example_member_failure_def
      example_contextual_failure_def)

text \<open>The loop over the resolved overloads is a search in the chain.\<close>

lemma getResolvedOverload_loop_find:
  "getResolvedOverload_loop head locator = find (\<lambda>r. Locator r = locator) (chain head)"
  by (induction head locator rule: getResolvedOverload_loop.induct) auto

text \<open>The loop over the mismatches: once \<^verbatim>\<open>result\<close> is true nothing more happens.\<close>

lemma addNotesForMismatches_loop_True:
  "addNotesForMismatches_loop f ms True sink = (True, sink)"
  by (induction ms) auto

lemma addNotesForMismatches_loop_append:
  "addNotesForMismatches_loop f (xs @ ys) result sink =
     (case addNotesForMismatches_loop f xs result sink of
        (r, sink') \<Rightarrow> addNotesForMismatches_loop f ys r sink')"
  by (induction f xs result sink rule: addNotesForMismatches_loop.induct)
     (auto split: prod.splits)

lemma addNotesForMismatches_loop_one_note:
  assumes "\<forall>p s. f p s = (False, s) \<or> (\<exists>n. f p s = (True, s @ [n]))"
  shows "\<exists>new. addNotesForMismatches_loop f ms False sink = (length new = 1, sink @ new) \<and>
           length new \<le> 1"
proof (induction ms arbitrary: sink)
  case Nil
  show ?case by simp
next
  case (Cons p ps)
  from assms consider "f p sink = (False, sink)" | n where "f p sink = (True, sink @ [n])"
    by blast
  then show ?case
  proof cases
    case 1
    with Cons.IH [of sink] show ?thesis by simp
  next
    case 2
    then have "addNotesForMismatches_loop f (p # ps) False sink = (length [n] = 1, sink @ [n])"
      by (simp add: addNotesForMismatches_loop_True)
    then show ?thesis by (intro exI [of _ "[n]"]) simp
  qed
qed

lemma GenericArgumentsMismatchFailure_ctor_Mismatches:
  "GenericArgumentsMismatchFailure_ctor expr ext actual required mismatches locator = Inr self
     \<Longrightarrow> Mismatches self = mismatches"
  by (auto simp: GenericArgumentsMismatchFailure_ctor_def FailureDiagnostic.defs
      GenericArgumentsMismatchFailure.defs split: sum.splits)

lemma example_addNoteForMismatch_contract:
  "\<forall>p s. example_addNoteForMismatch p s = (False, s) \<or>
     (\<exists>n. example_addNoteForMismatch p s = (True, s @ [n]))"
  by (simp add: example_addNoteForMismatch_def)

section \<open>The suppression policy of requirement failures\<close>

text \<open>
  Claim C2.  A requirement failure that is not conditional and sits inside a call (its
  \<^verbatim>\<open>Apply\<close> is set) whose apply expression is a prefix-unary, postfix-unary or binary
  operator invocation, or whose resolved anchor is a type expression, cannot be
  diagnosed: \<^verbatim>\<open>canDiagnoseFailure\<close> returns false.  Its \<^verbatim>\<open>diagnoseAsError\<close> then
  returns false and leaves the sink as it was, whatever the rendering would emit.

  The path of the locator is not empty, as the constructor asserts.  The first half is
  the header's code; the second goes through \<open>RequirementFailure_diagnoseAsError\<close>, the
  design's description of a body that is in the implementation file.
\<close>

theorem canDiagnoseFailure_operator_or_type_suppressed:
  assumes "\<not> isConditional rf"
    and "getPath (Locator_of rf) \<noteq> []"
    and "Apply rf = Some apply"
    and "Expr_getKind apply = PrefixUnaryExpr \<or> Expr_getKind apply = PostfixUnaryExpr \<or>
         Expr_getKind apply = BinaryExpr \<or> Expr_getKind (Anchor rf) = TypeExpr"
  shows "canDiagnoseFailure rf = Inr False \<and>
         RequirementFailure_diagnoseAsError render rf sink = Inr (False, sink)"
proof -
  have "\<not> operatorOrTypeCheck rf"
    using assms(3,4) by (auto simp: operatorOrTypeCheck_def isOperator_def isa_TypeExpr_def)
  then have "canDiagnoseFailure rf = Inr False"
    using assms(1,2) by (cases "getPath (Locator_of rf)") (auto simp: canDiagnoseFailure_def)
  then show ?thesis
    by (simp add: RequirementFailure_diagnoseAsError_def)
qed

text \<open>The same-type requirement failing inside the binary operator call.\<close>

theorem canDiagnoseFailure_operator_or_type_suppressed_witness:
  "RequirementFailure_ctor example_External (Some (Expr BinaryExpr 10)) RK_SameType
     (Some example_operator_locator) = Inr example_operator_failure \<and>
   \<not> isConditional example_operator_failure \<and>
   getPath (Locator_of example_operator_failure) \<noteq> [] \<and>
   Apply example_operator_failure = Some (Expr BinaryExpr 10) \<and>
   canDiagnoseFailure example_operator_failure = Inr False \<and>
   RequirementFailure_diagnoseAsError example_render example_operator_failure [] =
     Inr (False, [])"
  using canDiagnoseFailure_operator_or_type_suppressed
    [of example_operator_failure "Expr BinaryExpr 10" example_render "[]"]
    example_operator_failure_ctor
  by (simp add: example_operator_failure_def example_operator_locator_def isConditional_def)

text \<open>
  Claim C3.  For a requirement failure that is not conditional and whose resolved anchor
  is an unresolved-member expression, \<^verbatim>\<open>canDiagnoseFailure\<close> returns false unless the
  first element of the locator's path is an unresolved-member step; when it is, the
  check does not suppress the diagnostic, and the result is that of the last line of
  the function: true unless the failure sits inside an operator call.
\<close>

theorem canDiagnoseFailure_unresolved_member:
  assumes "\<not> isConditional rf"
    and "Expr_getKind (Anchor rf) = UnresolvedMemberExpr"
    and "getPath (Locator_of rf) = front # rest"
  shows "(getKind front \<noteq> UnresolvedMember \<longrightarrow> canDiagnoseFailure rf = Inr False) \<and>
         (getKind front = UnresolvedMember \<longrightarrow>
            canDiagnoseFailure rf =
              Inr (case Apply rf of
                     None \<Rightarrow> True
                   | Some apply \<Rightarrow>
                       Expr_getKind apply \<noteq> PrefixUnaryExpr \<and>
                       Expr_getKind apply \<noteq> PostfixUnaryExpr \<and>
                       Expr_getKind apply \<noteq> BinaryExpr))"
  using assms
  by (auto simp: canDiagnoseFailure_def isa_UnresolvedMemberExpr_def operatorOrTypeCheck_def
      isOperator_def isa_TypeExpr_def split: option.splits)

theorem canDiagnoseFailure_unresolved_member_witness:
  "\<not> isConditional example_member_failure \<and>
   Expr_getKind (Anchor example_member_failure) = UnresolvedMemberExpr \<and>
   getKind (hd (getPath (Locator_of example_member_failure))) = UnresolvedMember \<and>
   canDiagnoseFailure example_member_failure = Inr True \<and>
   \<not> isConditional example_contextual_failure \<and>
   Expr_getKind (Anchor example_contextual_failure) = UnresolvedMemberExpr \<and>
   getKind (hd (getPath (Locator_of example_contextual_failure))) = OpenedGeneric \<and>
   canDiagnoseFailure example_contextual_failure = Inr False"
  using canDiagnoseFailure_unresolved_member
    [of example_member_failure "PathElement UnresolvedMember 0 0"
      "[PathElement OpenedGeneric 0 0, PathElement TypeParameterRequirement 1 0]"]
    canDiagnoseFailure_unresolved_member
    [of example_contextual_failure "PathElement OpenedGeneric 0 0"
      "[PathElement TypeParameterRequirement 1 0]"]
  by (simp add: example_member_failure_def example_member_locator_def
      example_contextual_failure_def example_contextual_locator_def isConditional_def)

text \<open>
  Claim C4.  A requirement failure that is conditional (its conformance record is
  present) can always be diagnosed: \<^verbatim>\<open>canDiagnoseFailure\<close> returns true whatever the
  anchor, the locator's path and the enclosing apply expression are.
\<close>

theorem canDiagnoseFailure_conditional:
  "isConditional rf \<Longrightarrow> canDiagnoseFailure rf = Inr True"
  by (simp add: canDiagnoseFailure_def)

theorem canDiagnoseFailure_conditional_witness:
  "isConditional example_conditional_failure \<and>
   canDiagnoseFailure example_conditional_failure = Inr True \<and>
   isConditional (example_operator_failure \<lparr> Conformance := Some 99 \<rparr>) \<and>
   canDiagnoseFailure (example_operator_failure \<lparr> Conformance := Some 99 \<rparr>) = Inr True"
  using canDiagnoseFailure_conditional [of example_conditional_failure]
    canDiagnoseFailure_conditional [of "example_operator_failure \<lparr> Conformance := Some 99 \<rparr>"]
  by (simp add: isConditional_def example_conditional_failure_def)

section \<open>Construction of a requirement failure\<close>

text \<open>
  Claim C5.  Constructing a \<^verbatim>\<open>RequirementFailure\<close>, and hence any of its three concrete
  subclasses, requires that the locator's path is not empty and that its last element
  is a type-parameter requirement or a conditional requirement whose encoded kind is
  the kind of the construction (for a subclass, the kind it passes on).  Whenever this
  does not hold the construction ends in a failed assertion; it never returns an
  instance.
\<close>

theorem RequirementFailure_ctor_locator_shape:
  "(RequirementFailure_ctor ext expr kind locator = Inr rf \<longrightarrow>
      (\<exists>l. locator = Some l \<and> spec_construction_precondition kind l)) \<and>
   (\<not> spec_construction_precondition kind l \<longrightarrow>
      (\<exists>msg. RequirementFailure_ctor ext expr kind (Some l) = Inl (AssertionFailure msg))) \<and>
   (MissingConformanceFailure_ctor expr ext locator c = Inr mc \<longrightarrow>
      (\<exists>l. locator = Some l \<and> spec_construction_precondition RK_Conformance l)) \<and>
   (SameTypeRequirementFailure_ctor expr ext lhs rhs locator = Inr st \<longrightarrow>
      (\<exists>l. locator = Some l \<and> spec_construction_precondition RK_SameType l)) \<and>
   (SuperclassRequirementFailure_ctor expr ext lhs rhs locator = Inr sc \<longrightarrow>
      (\<exists>l. locator = Some l \<and> spec_construction_precondition RK_Superclass l))"
proof -
  have ok: "\<exists>l. locator = Some l \<and> spec_construction_precondition k l"
    if "RequirementFailure_ctor ext expr k locator = Inr r" for k r
    using RequirementFailure_ctor_Inr [OF that]
    by (auto simp: spec_construction_precondition_def isTypeParameterRequirement_def
        isConditionalRequirement_def)
  show ?thesis
    using ok RequirementFailure_ctor_Inl [of kind l ext expr]
      MissingConformanceFailure_ctor_Inr [of expr ext locator c mc]
      SameTypeRequirementFailure_ctor_Inr [of expr ext lhs rhs locator st]
      SuperclassRequirementFailure_ctor_Inr [of expr ext lhs rhs locator sc]
    by blast
qed

text \<open>
  A well-formed locator, an empty path, and a same-type locator handed to the
  construction of a conformance failure.
\<close>

theorem RequirementFailure_ctor_locator_shape_witness:
  "RequirementFailure_ctor example_External None RK_SameType (Some example_operator_locator) =
     Inr example_detached_failure \<and>
   spec_construction_precondition RK_SameType example_operator_locator \<and>
   \<not> spec_construction_precondition RK_SameType example_empty_locator \<and>
   RequirementFailure_ctor example_External None RK_SameType (Some example_empty_locator) =
     Inl (AssertionFailure ''!path.empty()'') \<and>
   \<not> spec_construction_precondition RK_Conformance example_operator_locator \<and>
   RequirementFailure_ctor example_External None RK_Conformance (Some example_operator_locator) =
     Inl (AssertionFailure ''static_cast<RequirementKind>(last.getValue2()) == kind'')"
  using RequirementFailure_ctor_locator_shape
    [of example_External None RK_SameType "Some example_operator_locator"
      example_detached_failure example_empty_locator]
    RequirementFailure_ctor_locator_shape
    [of example_External None RK_Conformance "Some example_operator_locator"
      example_detached_failure example_operator_locator]
    example_detached_failure_ctor
  by (simp add: example_ctor_simps spec_construction_precondition_def
      example_operator_locator_def example_empty_locator_def)

text \<open>
  Claim C6, as amended.  For every successfully constructed \<^verbatim>\<open>RequirementFailure\<close> at
  least one of the two holds: the conformance record is present (the conditional case)
  or the generic signature is present; never neither.  Both may be present: the
  constructor asserts \<^verbatim>\<open>isConditional() || Signature\<close>, and the header documents
  \<^verbatim>\<open>Signature\<close> as the source of the requirement, if available, with conditional
  requirements of a specialized conformance as the one exception.
\<close>

theorem RequirementFailure_ctor_conformance_or_signature:
  "RequirementFailure_ctor ext expr kind locator = Inr rf \<Longrightarrow>
     isConditional rf \<or> Signature rf \<noteq> None"
  by (auto simp: isConditional_def dest: RequirementFailure_ctor_Inr)

theorem RequirementFailure_ctor_conformance_or_signature_witness:
  "RequirementFailure_ctor example_External None RK_Conformance
     (Some example_member_locator) = Inr example_member_failure \<and>
   \<not> isConditional example_member_failure \<and>
   Signature example_member_failure = Some 40"
  using RequirementFailure_ctor_conformance_or_signature
    [OF example_member_failure_ctor] example_member_failure_ctor
  by (simp add: example_member_failure_def isConditional_def)

text \<open>
  A conditional requirement whose conformance has a generic signature: the construction
  succeeds with both fields set.
\<close>

theorem RequirementFailure_conformance_and_signature:
  "RequirementFailure_ctor example_External None RK_Conformance
     (Some example_conditional_locator) = Inr example_conditional_failure \<and>
   isConditional example_conditional_failure \<and>
   Conformance example_conditional_failure = Some 99 \<and>
   Signature example_conditional_failure = Some 40"
  using example_conditional_failure_ctor
  by (simp add: example_conditional_failure_def isConditional_def)

text \<open>
  Claim C7.  For a locator whose last path element is a conditional requirement with
  index \<open>i\<close>, \<^verbatim>\<open>getRequirementIndex()\<close> on a requirement failure built over that locator
  returns \<open>i\<close>, and \<^verbatim>\<open>isConditional()\<close> is true, for every index.

  \<^verbatim>\<open>getRequirementIndex\<close> is the header's; \<^verbatim>\<open>isConditional()\<close> reads the field that
  \<open>getConformanceForConditionalReq\<close> sets, which is the design's description of a body
  in the implementation file.
\<close>

theorem conditional_requirement_index:
  assumes "RequirementFailure_ctor ext expr kind (Some l) = Inr rf"
    and "getPath l = pre @ [PathElement ConditionalRequirement i k]"
  shows "getRequirementIndex rf = Inr i \<and> isConditional rf"
  using RequirementFailure_ctor_Inr [OF assms(1)] assms(2)
  by (auto simp: getRequirementIndex_def isConditional_def assert_def
      getConformanceForConditionalReq_def isConditionalRequirement_def)

theorem conditional_requirement_index_witness:
  "RequirementFailure_ctor example_External None RK_Conformance
     (Some example_conditional_locator) = Inr example_conditional_failure \<and>
   getPath example_conditional_locator =
     [PathElement ApplyArgument 0 0] @ [PathElement ConditionalRequirement 3 0] \<and>
   getRequirementIndex example_conditional_failure = Inr 3 \<and>
   isConditional example_conditional_failure"
  using conditional_requirement_index
    [OF example_conditional_failure_ctor, of "[PathElement ApplyArgument 0 0]" 3 0]
    example_conditional_failure_ctor
  by (simp add: example_conditional_locator_def)

text \<open>
  Claim C10.  A requirement failure constructed with a null base expression keeps a null
  \<^verbatim>\<open>Apply\<close>: the parent lookup is skipped.  The last line of \<^verbatim>\<open>canDiagnoseFailure\<close>, the
  check for an operator invocation or a type expression, is then true, so that it
  cannot suppress the diagnostic: the result of \<^verbatim>\<open>canDiagnoseFailure\<close> is false only
  through the check of the unresolved member.
\<close>

theorem null_expr_leaves_Apply_null:
  assumes "RequirementFailure_ctor ext None kind locator = Inr rf"
  shows "Apply rf = None \<and> operatorOrTypeCheck rf \<and>
         canDiagnoseFailure rf =
           Inr (isConditional rf \<or>
                \<not> (Expr_getKind (Anchor rf) = UnresolvedMemberExpr \<and>
                   getKind (hd (getPath (Locator_of rf))) \<noteq> UnresolvedMember))"
proof -
  from RequirementFailure_ctor_Inr [OF assms]
  have a: "Apply rf = None" and p: "getPath (Locator_of rf) \<noteq> []"
    by auto
  from a have o: "operatorOrTypeCheck rf"
    by (simp add: operatorOrTypeCheck_def)
  from p o show ?thesis using a
    by (cases "getPath (Locator_of rf)")
       (auto simp: canDiagnoseFailure_def isa_UnresolvedMemberExpr_def)
qed

text \<open>
  The failing operator requirement once more: with its base expression it is suppressed,
  without it the diagnostic is produced.
\<close>

theorem null_expr_leaves_Apply_null_witness:
  "RequirementFailure_ctor example_External None RK_SameType (Some example_operator_locator) =
     Inr example_detached_failure \<and>
   Apply example_detached_failure = None \<and>
   operatorOrTypeCheck example_detached_failure \<and>
   canDiagnoseFailure example_detached_failure = Inr True \<and>
   Apply example_operator_failure = Some (Expr BinaryExpr 10) \<and>
   \<not> operatorOrTypeCheck example_operator_failure"
  using null_expr_leaves_Apply_null [OF example_detached_failure_ctor]
    example_detached_failure_ctor
  by (simp add: example_detached_failure_def example_operator_failure_def
      example_operator_locator_def isConditional_def operatorOrTypeCheck_def isOperator_def)

section \<open>Resolved overloads\<close>

text \<open>
  Claim C8.  \<^verbatim>\<open>getResolvedOverload(locator)\<close> walks the solver's chain of resolved
  overloads from the most recently resolved record and returns the first record whose
  locator is the queried one (the same pointer), or null if no record of the chain
  matches.
\<close>

theorem getResolvedOverload_first_match:
  "getResolvedOverload cs locator =
     find (\<lambda>r. Locator r = locator) (chain (getResolvedOverloadSets cs))"
  by (simp add: getResolvedOverload_def getResolvedOverload_loop_find)

theorem getResolvedOverload_first_match_witness:
  "chain (getResolvedOverloadSets example_ConstraintSystem) =
     [example_newest, example_middle, example_oldest] \<and>
   getResolvedOverload example_ConstraintSystem (Some example_operator_locator) =
     Some example_middle \<and>
   getResolvedOverload example_ConstraintSystem (Some example_empty_locator) = None"
  using getResolvedOverload_first_match
    [of example_ConstraintSystem "Some example_operator_locator"]
    getResolvedOverload_first_match
    [of example_ConstraintSystem "Some example_empty_locator"]
  by (simp add: example_ConstraintSystem_def example_newest_def example_middle_def
      example_oldest_def example_operator_locator_def example_conditional_locator_def
      example_empty_locator_def)

section \<open>Notes for mismatched generic arguments\<close>

text \<open>
  Claim C9.  \<^verbatim>\<open>addNotesForMismatches\<close> stops attempting notes after the first mismatch
  position for which \<^verbatim>\<open>addNoteForMismatch\<close> returns true: if no position of \<open>pre\<close>
  got a note and the call at \<open>p\<close> succeeds, the result is the state after that call,
  whatever positions \<open>post\<close> follow and whatever \<^verbatim>\<open>addNoteForMismatch\<close> would do there.
  Hence, when a successful call attaches one note and a failed call none, at most one
  note is produced, and the function returns whether one was.  Every mismatch position
  given to the constructor is stored.
\<close>

theorem addNotesForMismatches_short_circuit:
  "(Mismatches self = pre @ p # post \<and>
    addNotesForMismatches_loop f pre False sink = (False, sink1) \<and>
    f p sink1 = (True, sink2) \<longrightarrow>
      addNotesForMismatches f self sink = (True, sink2)) \<and>
   ((\<forall>p s. f p s = (False, s) \<or> (\<exists>n. f p s = (True, s @ [n]))) \<longrightarrow>
      (\<exists>new. addNotesForMismatches f self sink = (length new = 1, sink @ new) \<and>
         length new \<le> 1)) \<and>
   (GenericArgumentsMismatchFailure_ctor expr ext actual required mismatches locator = Inr self
      \<longrightarrow> Mismatches self = mismatches)"
  using addNotesForMismatches_loop_one_note [of f "Mismatches self" sink]
    GenericArgumentsMismatchFailure_ctor_Mismatches
      [of expr ext actual required mismatches locator self]
  by (auto simp: addNotesForMismatches_def addNotesForMismatches_loop_append
      addNotesForMismatches_loop_True)

text \<open>Positions \<open>2\<close> and \<open>5\<close> both have a note; only the one for \<open>2\<close> is attached.\<close>

theorem addNotesForMismatches_short_circuit_witness:
  "GenericArgumentsMismatchFailure_ctor None example_External 50 51 [- 1, 2, 5]
     (Some example_empty_locator) = Inr example_mismatch_failure \<and>
   Mismatches example_mismatch_failure = [- 1] @ 2 # [5] \<and>
   addNotesForMismatches_loop example_addNoteForMismatch [- 1] False [] = (False, []) \<and>
   example_addNoteForMismatch 2 [] = (True, [Diagnostic Note 2]) \<and>
   example_addNoteForMismatch 5 [] = (True, [Diagnostic Note 5]) \<and>
   addNotesForMismatches example_addNoteForMismatch example_mismatch_failure [] =
     (True, [Diagnostic Note 2])"
  using addNotesForMismatches_short_circuit
    [of example_mismatch_failure "[- 1]" 2 "[5]" example_addNoteForMismatch "[]" "[]"
      "[Diagnostic Note 2]" None example_External 50 51 "[- 1, 2, 5]"
      "Some example_empty_locator"]
    example_addNoteForMismatch_contract
  by (simp add: example_addNoteForMismatch_def example_mismatch_failure_def
      GenericArgumentsMismatchFailure_ctor_def FailureDiagnostic_ctor_def
      example_External_def example_empty_locator_def FailureDiagnostic.defs
      GenericArgumentsMismatchFailure.defs)

end
